theory Spec2Isabelle
  imports Complex_Main "HOL-Library.AList" "HOL-Library.Multiset"
begin

section \<open>Python values, dictionaries and the shared random stream\<close>

text \<open>
  The records handled by the simulation are Python dictionaries with string keys. Their
  values are strings and numbers. A Python number (\<open>int\<close>, \<open>float\<close>, and \<open>bool\<close>, whose
  \<open>True\<close> and \<open>False\<close> are the numbers 1 and 0) is read as the real number it denotes, so
  that equality of values is Python's \<open>==\<close>. Floating-point rounding is not modelled:
  arithmetic is the arithmetic of the reals.
\<close>

datatype pyval = Str string | Num real

datatype error = KeyError | TypeError | ValueError | AttributeError | ZeroDivisionError

type_synonym pydict = "string \<rightharpoonup> pyval"

text \<open>Truth value of a Python object, as tested by \<open>if x:\<close>.\<close>

definition truthy :: "pyval \<Rightarrow> bool" where
  "truthy v = (case v of Str s \<Rightarrow> s \<noteq> [] | Num r \<Rightarrow> r \<noteq> 0)"

text \<open>\<open>d.get(k, default)\<close>.\<close>

definition dict_get :: "pydict \<Rightarrow> string \<Rightarrow> pyval \<Rightarrow> pyval" where
  "dict_get d k dflt = (case d k of None \<Rightarrow> dflt | Some v \<Rightarrow> v)"

text \<open>
  \<open>model.random\<close> is one generator shared by the model and all its agents. It is threaded
  through every function that draws from it, as the stream of the values that
  \<open>random.random()\<close> will return; a draw takes the head and leaves the rest.
\<close>

type_synonym rng = "nat \<Rightarrow> real"

definition rng_random :: "rng \<Rightarrow> real \<times> rng" where
  "rng_random g = (g 0, \<lambda>n. g (Suc n))"

text \<open>
  A method that writes to its object and then raises leaves the object as it was written.
  The result of such a method is an outcome: the method returns, or it raises an
  exception, and in both cases the outcome holds the state at that moment.
\<close>

datatype 's outcome = Returns 's | Raises error 's

fun state_of :: "'s outcome \<Rightarrow> 's" where
  "state_of (Returns s) = s"
| "state_of (Raises e s) = s"

text \<open>
  The agents call three methods of their model: \<open>record_retraction\<close>, \<open>user_retweet\<close> and
  \<open>deploy_countermeasure\<close>. \<open>MisinformationModel\<close> does not define them, and neither
  does the \<open>Model\<close> class of mesa that it extends: each of these calls raises
  \<open>AttributeError\<close>.
\<close>

section \<open>agent.py: BaseAgent and UserAgent\<close>

record base_agent =
  unique_id :: string
  pos :: "pyval option"

record user_agent = base_agent +
  user_id :: pyval
  screen_name :: pyval
  name :: pyval
  verified :: pyval
  followers_count :: pyval
  location :: pyval
  description :: pyval
  received_misinfo :: "pyval set"
  retweeted_misinfo :: "pyval set"
  received_countermeasures :: "pyval set"
  retweet_probability :: real
  susceptibility_to_countermeasures :: real

text \<open>
  \<open>_calculate_retweet_probability\<close> reads \<open>self.verified\<close> and \<open>self.followers_count\<close>.
  Comparing a string with \<open>0\<close> raises \<open>TypeError\<close>.
\<close>

definition calculate_retweet_probability :: "pyval \<Rightarrow> pyval \<Rightarrow> error + real" where
  "calculate_retweet_probability verified_v followers_count_v =
     (let base_prob = (0.1 :: real);
          base_prob = (if truthy verified_v then base_prob * 0.8 else base_prob)
      in case followers_count_v of
           Str s \<Rightarrow> Inl TypeError
         | Num n \<Rightarrow>
             (let follower_factor = (if n > 0 then 1.0 - min 0.5 (ln (1 + n) / 30) else 1.0)
              in Inr (base_prob * follower_factor)))"

definition calculate_susceptibility :: "pyval \<Rightarrow> rng \<Rightarrow> real \<times> rng" where
  "calculate_susceptibility verified_v g =
     (if truthy verified_v then (0.7, g)
      else (let (u, g') = rng_random g in (0.3 + (0.4 * u), g')))"

text \<open>\<open>UserAgent.__init__\<close>; \<open>str(unique_id)\<close> is the identifier itself, a string.\<close>

definition UserAgent_init :: "string \<Rightarrow> pydict \<Rightarrow> rng \<Rightarrow> error + (user_agent \<times> rng)" where
  "UserAgent_init uid user_data g =
     (let verified_v = dict_get user_data ''verified'' (Num 0);
          followers_count_v = dict_get user_data ''followers_count'' (Num 0)
      in case calculate_retweet_probability verified_v followers_count_v of
           Inl e \<Rightarrow> Inl e
         | Inr rp \<Rightarrow>
             (let (su, g') = calculate_susceptibility verified_v g
              in Inr (\<lparr> unique_id = uid, pos = None,
                         user_id = dict_get user_data ''user_id'' (Str uid),
                         screen_name = dict_get user_data ''screen_name'' (Str ''''),
                         name = dict_get user_data ''name'' (Str ''''),
                         verified = verified_v,
                         followers_count = followers_count_v,
                         location = dict_get user_data ''location'' (Str ''''),
                         description = dict_get user_data ''description'' (Str ''''),
                         received_misinfo = {},
                         retweeted_misinfo = {},
                         received_countermeasures = {},
                         retweet_probability = rp,
                         susceptibility_to_countermeasures = su \<rparr>, g')))"

text \<open>
  \<open>_consider_retweeting\<close>. The outcome holds the agent and the rest of the random
  stream. \<open>tweet_data['misinfo_id']\<close> raises \<open>KeyError\<close> when the key is missing. When
  the draw is below the probability the item is added to \<open>retweeted_misinfo\<close>, and then
  the call of \<open>self.model.user_retweet\<close> raises \<open>AttributeError\<close>.
\<close>

definition consider_retweeting ::
    "user_agent \<Rightarrow> rng \<Rightarrow> pydict \<Rightarrow> (user_agent \<times> rng) outcome" where
  "consider_retweeting self g tweet_data =
     (case tweet_data ''misinfo_id'' of
        None \<Rightarrow> Raises KeyError (self, g)
      | Some misinfo_id \<Rightarrow>
          if misinfo_id \<in> retweeted_misinfo self then Returns (self, g)
          else
            (let rt_prob = retweet_probability self;
                 rt_prob = (if misinfo_id \<in> received_countermeasures self
                            then rt_prob * (1 - susceptibility_to_countermeasures self)
                            else rt_prob);
                 (u, g') = rng_random g
             in if u < rt_prob
                then Raises AttributeError
                       (self\<lparr>retweeted_misinfo := insert misinfo_id (retweeted_misinfo self)\<rparr>, g')
                else Returns (self, g')))"

text \<open>
  \<open>receive_tweet\<close>. In the countermeasure branch the draw is made only when the item is in
  \<open>retweeted_misinfo\<close> (Python's \<open>and\<close> does not evaluate its right operand otherwise);
  when the draw is below \<open>susceptibility * 0.3\<close> the item is removed from
  \<open>retweeted_misinfo\<close>, and then the call of \<open>self.model.record_retraction\<close> raises
  \<open>AttributeError\<close>.
\<close>

definition receive_tweet ::
    "user_agent \<Rightarrow> rng \<Rightarrow> pydict \<Rightarrow> bool \<Rightarrow> (user_agent \<times> rng) outcome" where
  "receive_tweet self g tweet_data is_countermeasure =
     (case tweet_data ''misinfo_id'' of
        None \<Rightarrow> Raises KeyError (self, g)
      | Some misinfo_id \<Rightarrow>
          if is_countermeasure then
            (let self1 = self\<lparr>received_countermeasures :=
                               insert misinfo_id (received_countermeasures self)\<rparr>
             in if misinfo_id \<in> retweeted_misinfo self1 then
                  (let (u, g') = rng_random g
                   in if u < susceptibility_to_countermeasures self1 * 0.3
                      then Raises AttributeError
                             (self1\<lparr>retweeted_misinfo := retweeted_misinfo self1 - {misinfo_id}\<rparr>,
                              g')
                      else Returns (self1, g'))
                else Returns (self1, g))
          else
            consider_retweeting
              (self\<lparr>received_misinfo := insert misinfo_id (received_misinfo self)\<rparr>) g tweet_data)"

text \<open>\<open>UserAgent.step\<close> is \<open>pass\<close>.\<close>

definition UserAgent_step :: "user_agent \<Rightarrow> user_agent" where
  "UserAgent_step self = self"

text \<open>
  The states a user agent can be in: the one its constructor returns, and every state
  in which a call of \<open>receive_tweet\<close> or of \<open>step\<close> leaves it, whatever the tweet, the
  flag and the random stream, and whether the call returns or raises.
\<close>

inductive user_reachable :: "user_agent \<Rightarrow> bool" where
  ur_init: "UserAgent_init uid user_data g = Inr (a, g') \<Longrightarrow> user_reachable a"
| ur_receive: "user_reachable a \<Longrightarrow> state_of (receive_tweet a g tweet_data cm) = (a', g')
     \<Longrightarrow> user_reachable a'"
| ur_step: "user_reachable a \<Longrightarrow> user_reachable (UserAgent_step a)"

section \<open>agent.py: CountermeasureAgent\<close>

text \<open>
  The two dictionaries of a controller keep their keys in insertion order, and \<open>step\<close>
  iterates over one of them, so they are association lists: \<open>d[k] = v\<close> is
  \<open>AList.update\<close> (the value is replaced in place, a new key goes to the end), and
  \<open>del d[k]\<close> raises \<open>KeyError\<close> when the key is missing. The four parameters are
  attributes that the constructor assigns for some types only; \<open>None\<close> is an attribute
  that was never assigned. Ticks are Python numbers.
\<close>

record cm_agent = base_agent +
  type :: string
  activation_threshold :: "pyval option"
  target_threshold :: "pyval option"
  delay :: "pyval option"
  coverage_ratio :: "pyval option"
  active_countermeasures :: "(pyval \<times> real) list"
  pending_countermeasures :: "(pyval \<times> real) list"

definition dict_keys :: "('k \<times> 'v) list \<Rightarrow> 'k set" where
  "dict_keys d = fst ` set d"

definition dict_del :: "'k \<Rightarrow> ('k \<times> 'v) list \<Rightarrow> error + ('k \<times> 'v) list" where
  "dict_del k d = (if k \<in> dict_keys d then Inr (AList.delete k d) else Inl KeyError)"

text \<open>
  \<open>CountermeasureAgent.__init__\<close>. \<open>settings or {}\<close> replaces \<open>None\<close> (and the empty
  dictionary) by the empty dictionary. The chain of \<open>if\<close>/\<open>elif\<close> has no \<open>else\<close>, and
  no path of the constructor raises: the result is always an agent.
\<close>

definition CountermeasureAgent_init :: "string \<Rightarrow> string \<Rightarrow> pydict option \<Rightarrow> error + cm_agent" where
  "CountermeasureAgent_init uid countermeasure_type settings_arg =
     (let settings = (case settings_arg of None \<Rightarrow> Map.empty | Some s \<Rightarrow> s);
          self = \<lparr> unique_id = uid, pos = None, type = countermeasure_type,
                   activation_threshold = None, target_threshold = None,
                   delay = None, coverage_ratio = None,
                   active_countermeasures = [], pending_countermeasures = [] \<rparr>;
          self =
            (if countermeasure_type = ''key_node'' then
               self\<lparr>activation_threshold := Some (dict_get settings ''activation_threshold'' (Num 0.1)),
                    target_threshold := Some (dict_get settings ''target_threshold'' (Num 100000))\<rparr>
             else if countermeasure_type = ''fact_check'' then
               self\<lparr>activation_threshold := Some (dict_get settings ''activation_threshold'' (Num 50)),
                    delay := Some (dict_get settings ''delay'' (Num 30))\<rparr>
             else if countermeasure_type = ''early_warning'' then
               self\<lparr>activation_threshold := Some (dict_get settings ''activation_threshold'' (Num 10)),
                    coverage_ratio := Some (dict_get settings ''coverage_ratio'' (Num 0.3))\<rparr>
             else self)
      in Inr self)"

text \<open>
  \<open>activate_countermeasure\<close>. The outcome holds the controller and the items for which
  \<open>self.model.deploy_countermeasure\<close> was called. Reading \<open>self.delay\<close> raises
  \<open>AttributeError\<close> when the attribute was never assigned, and adding a string to the
  number \<open>current_step\<close> raises \<open>TypeError\<close>. In the other branch the item is written to
  \<open>active_countermeasures\<close>, and then the call of \<open>deploy_countermeasure\<close> raises
  \<open>AttributeError\<close>.
\<close>

definition activate_countermeasure ::
    "cm_agent \<Rightarrow> pyval \<Rightarrow> real \<Rightarrow> (cm_agent \<times> pyval list) outcome" where
  "activate_countermeasure self misinfo_id current_step =
     (if type self = ''fact_check'' then
        (case delay self of
           None \<Rightarrow> Raises AttributeError (self, [])
         | Some (Str s) \<Rightarrow> Raises TypeError (self, [])
         | Some (Num d) \<Rightarrow>
             Returns (self\<lparr>pending_countermeasures :=
                         AList.update misinfo_id (current_step + d) (pending_countermeasures self)\<rparr>,
                      []))
      else
        Raises AttributeError
          (self\<lparr>active_countermeasures :=
                  AList.update misinfo_id current_step (active_countermeasures self)\<rparr>,
           [misinfo_id]))"

text \<open>
  The first loop of \<open>step\<close>, over \<open>self.pending_countermeasures.items()\<close>: it fills
  \<open>to_activate\<close> and writes \<open>active_countermeasures\<close>.
\<close>

fun collect_due ::
    "real \<Rightarrow> (pyval \<times> real) list \<Rightarrow> pyval list \<Rightarrow> (pyval \<times> real) list
       \<Rightarrow> pyval list \<times> (pyval \<times> real) list" where
  "collect_due current_step [] to_activate active = (to_activate, active)"
| "collect_due current_step ((misinfo_id, activation_step) # items) to_activate active =
     (if current_step \<ge> activation_step
      then collect_due current_step items (to_activate @ [misinfo_id])
             (AList.update misinfo_id current_step active)
      else collect_due current_step items to_activate active)"

text \<open>
  The second loop of \<open>step\<close>, over \<open>to_activate\<close>: delete the item from pending, then
  call \<open>deploy_countermeasure\<close>. That call raises \<open>AttributeError\<close>, so the loop ends in
  its first round, with the later items of \<open>to_activate\<close> still pending.
\<close>

fun deploy_due ::
    "pyval list \<Rightarrow> (pyval \<times> real) list \<Rightarrow> ((pyval \<times> real) list \<times> pyval list) outcome" where
  "deploy_due [] pending = Returns (pending, [])"
| "deploy_due (misinfo_id # rest) pending =
     (case dict_del misinfo_id pending of
        Inl e \<Rightarrow> Raises e (pending, [])
      | Inr pending' \<Rightarrow> Raises AttributeError (pending', [misinfo_id]))"

text \<open>
  \<open>CountermeasureAgent.step\<close>. Its argument is the attribute \<open>step_count\<close> of the model,
  \<open>None\<close> when the model has no such attribute: \<open>getattr(self.model, "step_count", 0)\<close>
  is then \<open>0\<close>. The outcome holds the controller and the items for which
  \<open>deploy_countermeasure\<close> was called.
\<close>

definition CountermeasureAgent_step ::
    "cm_agent \<Rightarrow> real option \<Rightarrow> (cm_agent \<times> pyval list) outcome" where
  "CountermeasureAgent_step self model_step_count =
     (let current_step = (case model_step_count of None \<Rightarrow> 0 | Some c \<Rightarrow> c);
          (to_activate, active) =
             collect_due current_step (pending_countermeasures self) []
               (active_countermeasures self)
      in case deploy_due to_activate (pending_countermeasures self) of
           Returns (pending, requested) \<Rightarrow>
             Returns (self\<lparr>active_countermeasures := active, pending_countermeasures := pending\<rparr>,
                      requested)
         | Raises e (pending, requested) \<Rightarrow>
             Raises e (self\<lparr>active_countermeasures := active, pending_countermeasures := pending\<rparr>,
                       requested))"

text \<open>
  Calls on a controller: \<open>activate_countermeasure(misinfo_id, current_step)\<close> and
  \<open>step()\<close> under a model whose \<open>step_count\<close> is as given. \<open>cm_run\<close> makes the calls
  of a list one after the other, each on the controller as the call before left it,
  whether that call returned or raised, and collects the items for which
  \<open>deploy_countermeasure\<close> was called.
\<close>

datatype cm_op = Activate pyval real | Step "real option"

fun cm_call :: "cm_agent \<Rightarrow> cm_op \<Rightarrow> (cm_agent \<times> pyval list) outcome" where
  "cm_call self (Activate misinfo_id current_step) =
     activate_countermeasure self misinfo_id current_step"
| "cm_call self (Step model_step_count) = CountermeasureAgent_step self model_step_count"

fun cm_run :: "cm_agent \<Rightarrow> pyval list \<Rightarrow> cm_op list \<Rightarrow> cm_agent \<times> pyval list" where
  "cm_run self requested [] = (self, requested)"
| "cm_run self requested (c # cs) =
     cm_run (fst (state_of (cm_call self c)))
            (requested @ snd (state_of (cm_call self c))) cs"

text \<open>
  A list of calls in which \<open>activate_countermeasure\<close> is never called for an item that is
  active in the controller at that moment.
\<close>

fun no_reactivation :: "cm_agent \<Rightarrow> cm_op list \<Rightarrow> bool" where
  "no_reactivation self [] = True"
| "no_reactivation self (c # cs) =
     ((case c of
         Activate misinfo_id current_step \<Rightarrow>
           misinfo_id \<notin> dict_keys (active_countermeasures self)
       | Step model_step_count \<Rightarrow> True) \<and>
      no_reactivation (fst (state_of (cm_call self c))) cs)"

section \<open>model.py: MisinformationModel\<close>

text \<open>
  \<open>tweets_timeline\<close> is a pandas DataFrame: its column names and its rows, each row a
  dictionary from column names to cells. A cell that holds NaN, pandas' missing value, is
  a key without a value in the row.
\<close>

record dataframe =
  columns :: "string list"
  rows :: "pydict list"

text \<open>\<open>self.time_unit = 60\<close>, set by the constructor before the schedule is built.\<close>

definition time_unit :: real where
  "time_unit = 60"

text \<open>\<open>int(x)\<close> of a float: truncation towards zero.\<close>

definition py_int :: "real \<Rightarrow> int" where
  "py_int x = (if x \<ge> 0 then \<lfloor>x\<rfloor> else \<lceil>x\<rceil>)"

text \<open>
  \<open>df.sort_values(col).to_dict('records')\<close>: the rows in ascending order of the column,
  rows with NaN last. A string in a numeric column makes pandas raise \<open>TypeError\<close> when
  it compares the cells (a column of strings only would be sorted, and \<open>TypeError\<close> be
  raised by the division that follows). pandas does not fix the order of rows with equal
  cells; the model takes the stable order.
\<close>

definition cell_num :: "string \<Rightarrow> pydict \<Rightarrow> real" where
  "cell_num col row = (case row col of Some (Num x) \<Rightarrow> x | _ \<Rightarrow> 0)"

definition sort_values :: "dataframe \<Rightarrow> string \<Rightarrow> error + pydict list" where
  "sort_values df col =
     (if \<exists>row \<in> set (rows df). \<exists>s. row col = Some (Str s) then Inl TypeError
      else Inr (sort_key (cell_num col) (filter (\<lambda>row. row col \<noteq> None) (rows df))
                @ filter (\<lambda>row. row col = None) (rows df)))"

text \<open>
  The loop of \<open>_schedule_tweets\<close>. \<open>int\<close> of NaN raises \<open>ValueError\<close>, dividing a
  string raises \<open>TypeError\<close>.
\<close>

fun schedule_loop ::
    "real \<Rightarrow> pydict list \<Rightarrow> (int \<times> pydict) list \<Rightarrow> error + (int \<times> pydict) list" where
  "schedule_loop tu [] scheduled = Inr scheduled"
| "schedule_loop tu (tweet # rest) scheduled =
     (case tweet ''time_since_start'' of
        None \<Rightarrow> Inl ValueError
      | Some (Str s) \<Rightarrow> Inl TypeError
      | Some (Num t) \<Rightarrow>
          if tu = 0 then Inl ZeroDivisionError
          else schedule_loop tu rest (scheduled @ [(py_int (t / tu), tweet)]))"

text \<open>
  \<open>_schedule_tweets\<close>, given \<open>self.time_unit\<close> and \<open>self.tweets_timeline\<close>; the
  result is \<open>self.scheduled_tweets\<close>, which is empty before the call.
\<close>

definition schedule_tweets :: "real \<Rightarrow> dataframe \<Rightarrow> error + (int \<times> pydict) list" where
  "schedule_tweets tu tweets_timeline =
     (if ''time_since_start'' \<notin> set (columns tweets_timeline) then Inr []
      else case sort_values tweets_timeline ''time_since_start'' of
             Inl e \<Rightarrow> Inl e
           | Inr sorted_tweets \<Rightarrow> schedule_loop tu sorted_tweets [])"

text \<open>
  \<open>d.get(k)\<close> as a condition: \<open>None\<close>, which is false, when the key is missing.
\<close>

definition enabled :: "pydict \<Rightarrow> string \<Rightarrow> bool" where
  "enabled d k = (case d k of None \<Rightarrow> False | Some v \<Rightarrow> truthy v)"

text \<open>
  The first loop of \<open>_create_agents\<close>. A user without \<open>user_id\<close>, or with a false one, is
  skipped. For the first other user the agent is constructed, and then \<open>self.add(agent)\<close>
  raises \<open>AttributeError\<close>: neither \<open>MisinformationModel\<close> nor mesa's \<open>Model\<close> has a
  method \<open>add\<close>. The loop returns only when it constructed no agent. \<open>py_str\<close> is
  Python's \<open>str\<close> on identifiers.
\<close>

fun create_user_agents :: "(pyval \<Rightarrow> string) \<Rightarrow> pydict list \<Rightarrow> rng \<Rightarrow> error + rng" where
  "create_user_agents py_str [] g = Inr g"
| "create_user_agents py_str (user_data # rest) g =
     (case user_data ''user_id'' of
        None \<Rightarrow> create_user_agents py_str rest g
      | Some uid \<Rightarrow>
          if \<not> truthy uid then create_user_agents py_str rest g
          else (case UserAgent_init (py_str uid) user_data g of
                  Inl e \<Rightarrow> Inl e
                | Inr (agent, g') \<Rightarrow> Inl AttributeError))"

datatype agent = User user_agent | Countermeasure cm_agent

text \<open>
  \<open>_create_agents\<close>: the loop over the users, then one controller for every enabled
  countermeasure. The first enabled controller is constructed, and then \<open>self.add\<close>
  (for key_node) or \<open>self.add_agent\<close> (for the other two) raises \<open>AttributeError\<close>, for
  the same reason. The result is the agents registered with the model: the method
  returns only when there are none.
\<close>

definition create_agents ::
    "(pyval \<Rightarrow> string) \<Rightarrow> pydict list \<Rightarrow> pydict \<Rightarrow> rng \<Rightarrow> error + (agent list \<times> rng)" where
  "create_agents py_str users_data cs g =
     (case create_user_agents py_str users_data g of
        Inl e \<Rightarrow> Inl e
      | Inr g' \<Rightarrow>
          if enabled cs ''key_node_enabled'' then
            (case CountermeasureAgent_init ''cm_key_node'' ''key_node''
                    (Some [''activation_threshold'' \<mapsto> dict_get cs ''key_node_threshold'' (Num 0.1),
                           ''target_threshold'' \<mapsto> dict_get cs ''key_node_followers'' (Num 100000)]) of
               Inl e \<Rightarrow> Inl e
             | Inr cm_agent \<Rightarrow> Inl AttributeError)
          else if enabled cs ''fact_check_enabled'' then
            (case CountermeasureAgent_init ''cm_fact_check'' ''fact_check''
                    (Some [''activation_threshold'' \<mapsto> dict_get cs ''fact_check_threshold'' (Num 50),
                           ''delay'' \<mapsto> dict_get cs ''fact_check_delay'' (Num 30)]) of
               Inl e \<Rightarrow> Inl e
             | Inr cm_agent \<Rightarrow> Inl AttributeError)
          else if enabled cs ''early_warning_enabled'' then
            (case CountermeasureAgent_init ''cm_early_warning'' ''early_warning''
                    (Some [''activation_threshold'' \<mapsto> dict_get cs ''early_warning_threshold'' (Num 10),
                           ''coverage_ratio'' \<mapsto> dict_get cs ''early_warning_coverage'' (Num 0.3)]) of
               Inl e \<Rightarrow> Inl e
             | Inr cm_agent \<Rightarrow> Inl AttributeError)
          else Inr ([], g'))"

text \<open>
  The model as far as \<open>step\<close> reads and writes it. \<open>num_steps\<close> is the attribute that
  \<open>MisinformationModel.step\<close> reads for the current tick, and \<open>step_count\<close> the one that
  \<open>CountermeasureAgent.step\<close> reads; \<open>None\<close> is a model without the attribute.
\<close>

record model =
  scheduled_tweets :: "(int \<times> pydict) list"
  agents :: "agent list"
  num_steps :: "real option"
  step_count :: "real option"

text \<open>
  \<open>MisinformationModel.__init__\<close>, given the users, the timeline, the countermeasure
  settings and the random stream as \<open>_setup_network\<close> leaves it (the graph is not
  modelled, and \<open>_setup_network\<close> is taken to return). \<open>countermeasure_settings or {}\<close> replaces \<open>None\<close> by the empty dictionary.
  No statement of the constructor, of the rest of \<open>model.py\<close> or of \<open>agent.py\<close> assigns
  \<open>num_steps\<close> or \<open>step_count\<close>, and mesa's \<open>Model\<close> has neither: the model is
  constructed without them. The data collector only reads the model.
\<close>

definition Model_init ::
    "(pyval \<Rightarrow> string) \<Rightarrow> pydict list \<Rightarrow> dataframe \<Rightarrow> pydict option \<Rightarrow> rng
       \<Rightarrow> error + (model \<times> rng)" where
  "Model_init py_str users_data tweets_timeline countermeasure_settings g =
     (let cs = (case countermeasure_settings of None \<Rightarrow> Map.empty | Some s \<Rightarrow> s)
      in case create_agents py_str users_data cs g of
           Inl e \<Rightarrow> Inl e
         | Inr (registered, g') \<Rightarrow>
             (case schedule_tweets time_unit tweets_timeline of
                Inl e \<Rightarrow> Inl e
              | Inr scheduled \<Rightarrow>
                  Inr (\<lparr> scheduled_tweets = scheduled, agents = registered,
                          num_steps = None, step_count = None \<rparr>, g')))"

text \<open>
  The first loop of \<open>MisinformationModel.step\<close>, over the copy \<open>self.scheduled_tweets[:]\<close>.
  \<open>process_tweet\<close> is \<open>pass\<close>; the tweets it is called with are collected in the order
  of the calls. \<open>list.remove\<close> deletes the first equal element and raises \<open>ValueError\<close>
  when there is none. The outcome holds the schedule and the tweets processed.
\<close>

fun dispatch_loop ::
    "real \<Rightarrow> (int \<times> pydict) list \<Rightarrow> (int \<times> pydict) list \<Rightarrow> pydict list
       \<Rightarrow> ((int \<times> pydict) list \<times> pydict list) outcome" where
  "dispatch_loop current_step [] scheduled processed = Returns (scheduled, processed)"
| "dispatch_loop current_step ((step, tweet) # rest) scheduled processed =
     (if real_of_int step \<le> current_step then
        (if (step, tweet) \<in> set scheduled
         then dispatch_loop current_step rest (remove1 (step, tweet) scheduled)
                (processed @ [tweet])
         else Raises ValueError (scheduled, processed @ [tweet]))
      else dispatch_loop current_step rest scheduled processed)"

text \<open>
  The second loop of \<open>step\<close>: \<open>agent.step()\<close> for every agent. When a controller
  raises, the agents after it are not stepped.
\<close>

fun step_agents :: "real option \<Rightarrow> agent list \<Rightarrow> agent list \<Rightarrow> agent list outcome" where
  "step_agents sc [] done = Returns done"
| "step_agents sc (User a # rest) done =
     step_agents sc rest (done @ [User (UserAgent_step a)])"
| "step_agents sc (Countermeasure c # rest) done =
     (case CountermeasureAgent_step c sc of
        Returns (c', requested) \<Rightarrow> step_agents sc rest (done @ [Countermeasure c'])
      | Raises e (c', requested) \<Rightarrow> Raises e (done @ [Countermeasure c'] @ rest))"

text \<open>
  \<open>MisinformationModel.step\<close>. Reading \<open>self.num_steps\<close> raises \<open>AttributeError\<close> when
  the model has no such attribute. The outcome holds the model and the tweets passed to
  \<open>process_tweet\<close>. The data collector only reads the model.
\<close>

definition Model_step :: "model \<Rightarrow> (model \<times> pydict list) outcome" where
  "Model_step self =
     (case num_steps self of
        None \<Rightarrow> Raises AttributeError (self, [])
      | Some current_step \<Rightarrow>
          (case dispatch_loop current_step (scheduled_tweets self) (scheduled_tweets self) [] of
             Raises e (scheduled, processed) \<Rightarrow>
               Raises e (self\<lparr>scheduled_tweets := scheduled\<rparr>, processed)
           | Returns (scheduled, processed) \<Rightarrow>
               (case step_agents (step_count self) (agents self) [] of
                  Raises e agents' \<Rightarrow>
                    Raises e (self\<lparr>scheduled_tweets := scheduled, agents := agents'\<rparr>, processed)
                | Returns agents' \<Rightarrow>
                    Returns (self\<lparr>scheduled_tweets := scheduled, agents := agents'\<rparr>,
                             processed))))"

section \<open>Auxiliary notions\<close>

text \<open>
  The entries of \<open>pending_countermeasures\<close> that the first loop of
  \<open>CountermeasureAgent.step\<close> selects at the current tick \<open>c\<close>.
\<close>

definition due_items :: "real \<Rightarrow> (pyval \<times> real) list \<Rightarrow> (pyval \<times> real) list" where
  "due_items c items = filter (\<lambda>(m, s). s \<le> c) items"

text \<open>The three countermeasure types that the constructor knows.\<close>

definition known_types :: "string set" where
  "known_types = {''key_node'', ''fact_check'', ''early_warning''}"

text \<open>
  What holds of a controller and of the items whose deployment it has requested so far, as
  long as no active item is activated again: the keys of \<open>pending_countermeasures\<close> are
  pairwise different, only a fact_check controller has pending items, and the requested
  items are pairwise different, all active and none of them pending.
\<close>

definition cm_inv :: "cm_agent \<Rightarrow> pyval list \<Rightarrow> bool" where
  "cm_inv a requested \<longleftrightarrow>
     distinct (map fst (pending_countermeasures a)) \<and>
     (type a = ''fact_check'' \<or> pending_countermeasures a = []) \<and>
     distinct requested \<and>
     set requested \<subseteq> dict_keys (active_countermeasures a) \<and>
     set requested \<inter> dict_keys (pending_countermeasures a) = {}"

text \<open>
  A scheduled record is due at the current tick \<open>c\<close> when its tick is at most \<open>c\<close>;
  \<open>tick_of\<close> is the tick that \<open>_schedule_tweets\<close> gives a row with a numeric cell.
\<close>

definition is_due :: "real \<Rightarrow> int \<times> pydict \<Rightarrow> bool" where
  "is_due c e = (real_of_int (fst e) \<le> c)"

definition tick_of :: "real \<Rightarrow> pydict \<Rightarrow> int" where
  "tick_of tu row = py_int (cell_num ''time_since_start'' row / tu)"

section \<open>Scenarios\<close>

text \<open>
  Concrete agents, tweets, timelines and models on which the functions are evaluated.
  \<open>zero_draws\<close> is the random stream whose draws are all \<open>0\<close>, and \<open>str_of_id\<close> renders
  the identifiers of the scenarios, which are strings.
\<close>

definition zero_draws :: rng where
  "zero_draws = (\<lambda>n. 0)"

definition str_of_id :: "pyval \<Rightarrow> string" where
  "str_of_id v = (case v of Str s \<Rightarrow> s | Num r \<Rightarrow> [])"

definition m1_tweet :: pydict where
  "m1_tweet = [''misinfo_id'' \<mapsto> Str ''m1'']"

definition user_u1 :: user_agent where
  "user_u1 = \<lparr> unique_id = ''u1'', pos = None, user_id = Str ''u1'', screen_name = Str '''',
      name = Str '''', verified = Num 0, followers_count = Num 0, location = Str '''',
      description = Str '''', received_misinfo = {}, retweeted_misinfo = {},
      received_countermeasures = {}, retweet_probability = 0.1,
      susceptibility_to_countermeasures = 0.3 \<rparr>"

definition user_u1_shared :: user_agent where
  "user_u1_shared = user_u1\<lparr>received_misinfo := {Str ''m1''}, retweeted_misinfo := {Str ''m1''}\<rparr>"

definition user_u1_retracted :: user_agent where
  "user_u1_retracted = user_u1_shared\<lparr>retweeted_misinfo := {}, received_countermeasures := {Str ''m1''}\<rparr>"

definition user_u1_reshared :: user_agent where
  "user_u1_reshared = user_u1_retracted\<lparr>retweeted_misinfo := {Str ''m1''}\<rparr>"

definition m1 :: pyval where "m1 = Str ''m1''"

definition fc_agent :: cm_agent where
  "fc_agent = \<lparr> unique_id = ''cm_fact_check'', pos = None, type = ''fact_check'',
      activation_threshold = Some (Num 2), target_threshold = None, delay = Some (Num 5),
      coverage_ratio = None, active_countermeasures = [], pending_countermeasures = [] \<rparr>"

definition fc_pending :: cm_agent where
  "fc_pending = fc_agent\<lparr>pending_countermeasures := [(m1, 9)]\<rparr>"

definition fc0_agent :: cm_agent where
  "fc0_agent = fc_agent\<lparr>delay := Some (Num 0)\<rparr>"

definition fc0_pending :: cm_agent where
  "fc0_pending = fc0_agent\<lparr>pending_countermeasures := [(m1, 0)]\<rparr>"

definition fc0_active :: cm_agent where
  "fc0_active = fc0_agent\<lparr>active_countermeasures := [(m1, 0)]\<rparr>"

definition fc0_both :: cm_agent where
  "fc0_both = fc0_agent\<lparr>active_countermeasures := [(m1, 0)], pending_countermeasures := [(m1, 0)]\<rparr>"

definition bogus_agent :: cm_agent where
  "bogus_agent = \<lparr> unique_id = ''cm_x'', pos = None, type = ''bogus'',
      activation_threshold = None, target_threshold = None, delay = None,
      coverage_ratio = None, active_countermeasures = [], pending_countermeasures = [] \<rparr>"

definition tweet_0 :: pydict where
  "tweet_0 = [''misinfo_id'' \<mapsto> Str ''m1'', ''time_since_start'' \<mapsto> Num 0]"

definition tweet_59 :: pydict where
  "tweet_59 = [''misinfo_id'' \<mapsto> Str ''m1'', ''time_since_start'' \<mapsto> Num 59]"

definition tweet_130 :: pydict where
  "tweet_130 = [''misinfo_id'' \<mapsto> Str ''m1'', ''time_since_start'' \<mapsto> Num 130]"

definition timeline_3 :: dataframe where
  "timeline_3 = \<lparr> columns = [''misinfo_id'', ''time_since_start''],
                    rows = [tweet_130, tweet_0, tweet_59] \<rparr>"

definition model_3 :: model where
  "model_3 = \<lparr> scheduled_tweets = [(0, tweet_0), (0, tweet_59), (2, tweet_130)],
                 agents = [], num_steps = None, step_count = None \<rparr>"

section \<open>Properties of UserAgent\<close>

lemma zero_draws_random: "rng_random zero_draws = (0, zero_draws)"
  by (simp add: rng_random_def zero_draws_def)

lemma m1_tweet_id: "m1_tweet ''misinfo_id'' = Some (Str ''m1'')"
  by (simp add: m1_tweet_def)

lemma user_u1_init: "UserAgent_init ''u1'' Map.empty (\<lambda>n. 0) = Inr (user_u1, \<lambda>n. 0)"
  by (simp add: UserAgent_init_def calculate_retweet_probability_def calculate_susceptibility_def
      dict_get_def truthy_def rng_random_def user_u1_def Let_def)

lemma user_u1_share:
  "receive_tweet user_u1 zero_draws m1_tweet False =
     Raises AttributeError (user_u1_shared, zero_draws)"
  by (simp add: receive_tweet_def consider_retweeting_def zero_draws_random user_u1_def
      user_u1_shared_def m1_tweet_def Let_def)

lemma user_u1_retract:
  "receive_tweet user_u1_shared zero_draws m1_tweet True =
     Raises AttributeError (user_u1_retracted, zero_draws)"
  by (simp add: receive_tweet_def zero_draws_random user_u1_def user_u1_shared_def
      user_u1_retracted_def m1_tweet_def Let_def)

lemma user_u1_reshare:
  "receive_tweet user_u1_retracted zero_draws m1_tweet False =
     Raises AttributeError (user_u1_reshared, zero_draws)"
  by (simp add: receive_tweet_def consider_retweeting_def zero_draws_random user_u1_def
      user_u1_shared_def user_u1_retracted_def user_u1_reshared_def m1_tweet_def Let_def)

lemma user_u1_again:
  "receive_tweet user_u1_shared zero_draws m1_tweet False = Returns (user_u1_shared, zero_draws)"
  by (simp add: receive_tweet_def consider_retweeting_def zero_draws_random user_u1_def
      user_u1_shared_def m1_tweet_def Let_def)

lemma receive_tweet_subset:
  assumes "state_of (receive_tweet a g tweet_data cm) = (a', g')"
    and "retweeted_misinfo a \<subseteq> received_misinfo a"
  shows "retweeted_misinfo a' \<subseteq> received_misinfo a'"
  using assms
  by (auto simp: receive_tweet_def consider_retweeting_def rng_random_def Let_def
           split: option.splits if_splits)

lemma UserAgent_init_sets:
  assumes "UserAgent_init uid user_data g = Inr (a, g')"
  shows "received_misinfo a = {} \<and> retweeted_misinfo a = {} \<and> received_countermeasures a = {}"
  using assms
  by (auto simp: UserAgent_init_def Let_def split: sum.splits prod.splits)

text \<open>
  C1. In every state that a user agent can reach from its constructor by calls of
  \<open>receive_tweet\<close> (with either flag, any tweet and any random draws, and whether the
  call returns or raises) and of \<open>step\<close>, \<open>retweeted_misinfo\<close> is a subset of
  \<open>received_misinfo\<close>.
\<close>

theorem shared_subset_received:
  assumes "user_reachable a"
  shows "retweeted_misinfo a \<subseteq> received_misinfo a"
  using assms
proof (induction rule: user_reachable.induct)
  case (ur_init uid user_data g a g')
  then show ?case using UserAgent_init_sets by blast
next
  case (ur_receive a g tweet_data cm a' g')
  then show ?case using receive_tweet_subset by blast
next
  case (ur_step a)
  then show ?case by (simp add: UserAgent_step_def)
qed

theorem shared_subset_received_witness:
  "user_reachable user_u1_shared \<and>
   retweeted_misinfo user_u1_shared \<subseteq> received_misinfo user_u1_shared"
proof -
  have "user_reachable user_u1"
    by (rule ur_init [OF user_u1_init])
  moreover have "state_of (receive_tweet user_u1 zero_draws m1_tweet False)
      = (user_u1_shared, zero_draws)"
    by (simp add: user_u1_share)
  ultimately have r: "user_reachable user_u1_shared"
    by (rule ur_receive)
  show ?thesis
    using r shared_subset_received [OF r] by simp
qed

text \<open>
  C3 fails as stated: a user can share an item more than once. A user who shares an item,
  retracts it on a countermeasure and receives the item again shares it a second time: the
  retraction takes the item out of \<open>retweeted_misinfo\<close>, which is all that the guard of
  \<open>_consider_retweeting\<close> looks at. Each sharing call ends by raising \<open>AttributeError\<close>.
\<close>

theorem share_twice_counterexample:
  "m1_tweet ''misinfo_id'' = Some (Str ''m1'') \<and>
   receive_tweet user_u1 zero_draws m1_tweet False =
     Raises AttributeError (user_u1_shared, zero_draws) \<and>
   Str ''m1'' \<in> retweeted_misinfo user_u1_shared \<and>
   receive_tweet user_u1_shared zero_draws m1_tweet True =
     Raises AttributeError (user_u1_retracted, zero_draws) \<and>
   Str ''m1'' \<notin> retweeted_misinfo user_u1_retracted \<and>
   receive_tweet user_u1_retracted zero_draws m1_tweet False =
     Raises AttributeError (user_u1_reshared, zero_draws) \<and>
   Str ''m1'' \<in> retweeted_misinfo user_u1_reshared"
  using m1_tweet_id user_u1_share user_u1_retract user_u1_reshare
  by (simp add: user_u1_shared_def user_u1_retracted_def user_u1_reshared_def)

text \<open>
  C3, amended. A misinformation delivery (\<open>is_countermeasure = False\<close>) of an item \<open>m\<close>
  adds \<open>m\<close> to \<open>received_misinfo\<close>. When \<open>m\<close> is in \<open>retweeted_misinfo\<close> at that
  moment, the call returns and nothing else changes: no draw is made. Otherwise the
  probability is \<open>retweet_probability\<close>, multiplied by \<open>1 - susceptibility\<close> exactly
  when \<open>m\<close> is in \<open>received_countermeasures\<close>; one draw is made, and \<open>m\<close> is added to
  \<open>retweeted_misinfo\<close> exactly when the draw is less than that probability; when it is
  not, the call returns. Nothing else of the agent changes.
\<close>

theorem receive_misinformation:
  assumes "tweet_data ''misinfo_id'' = Some m"
  shows "\<exists>a' g'. state_of (receive_tweet a g tweet_data False) = (a', g') \<and>
     received_misinfo a' = insert m (received_misinfo a) \<and>
     (if m \<in> retweeted_misinfo a
      then receive_tweet a g tweet_data False =
             Returns (a\<lparr>received_misinfo := insert m (received_misinfo a)\<rparr>, g)
      else
        (let p = (if m \<in> received_countermeasures a
                  then retweet_probability a * (1 - susceptibility_to_countermeasures a)
                  else retweet_probability a)
         in (if g 0 < p then retweeted_misinfo a' = insert m (retweeted_misinfo a)
             else retweeted_misinfo a' = retweeted_misinfo a \<and>
                  receive_tweet a g tweet_data False = Returns (a', g')) \<and>
            a' = a\<lparr>received_misinfo := insert m (received_misinfo a),
                    retweeted_misinfo := retweeted_misinfo a'\<rparr> \<and>
            g' = (\<lambda>n. g (Suc n))))"
  using assms
  by (simp add: receive_tweet_def consider_retweeting_def rng_random_def Let_def)

theorem receive_misinformation_witness:
  "m1_tweet ''misinfo_id'' = Some (Str ''m1'') \<and>
   state_of (receive_tweet user_u1 zero_draws m1_tweet False) = (user_u1_shared, zero_draws) \<and>
   received_misinfo user_u1_shared = insert (Str ''m1'') (received_misinfo user_u1) \<and>
   receive_tweet user_u1_shared zero_draws m1_tweet False = Returns (user_u1_shared, zero_draws)"
proof -
  from receive_misinformation [of m1_tweet "Str ''m1''" user_u1 zero_draws] m1_tweet_id
  obtain a' g' where
    r: "state_of (receive_tweet user_u1 zero_draws m1_tweet False) = (a', g')" and
    s: "received_misinfo a' = insert (Str ''m1'') (received_misinfo user_u1)"
    by blast
  from r user_u1_share have "a' = user_u1_shared" by simp
  with s have "received_misinfo user_u1_shared = insert (Str ''m1'') (received_misinfo user_u1)"
    by simp
  with m1_tweet_id user_u1_share user_u1_again show ?thesis by simp
qed

lemma receive_countermeasure_state:
  assumes "tweet_data ''misinfo_id'' = Some m"
  shows "\<exists>a' g'. state_of (receive_tweet a g tweet_data True) = (a', g') \<and>
     received_countermeasures a' = insert m (received_countermeasures a) \<and>
     (let retract = (m \<in> retweeted_misinfo a \<and> g 0 < susceptibility_to_countermeasures a * 0.3)
      in retweeted_misinfo a' = (if retract then retweeted_misinfo a - {m} else retweeted_misinfo a) \<and>
         (if retract then receive_tweet a g tweet_data True = Raises AttributeError (a', g')
          else receive_tweet a g tweet_data True = Returns (a', g')))"
  using assms
  by (auto simp: receive_tweet_def rng_random_def Let_def)

lemma retraction_only_by_countermeasure:
  assumes "state_of (receive_tweet a g tweet_data cm) = (a', g')"
    and "x \<in> retweeted_misinfo a" and "x \<notin> retweeted_misinfo a'"
  shows "cm \<and> tweet_data ''misinfo_id'' = Some x \<and>
         g 0 < susceptibility_to_countermeasures a * 0.3"
  using assms
  by (auto simp: receive_tweet_def consider_retweeting_def rng_random_def Let_def
      split: option.splits if_splits)

text \<open>
  C4, at its failing input. A user who has shared the item \<open>m1\<close> receives a countermeasure
  for it, and the draw is \<open>0\<close>. The item is added to \<open>received_countermeasures\<close> and
  removed from \<open>retweeted_misinfo\<close>, and then the call raises \<open>AttributeError\<close>: no
  retraction reaches the model.
\<close>

theorem retraction_raises:
  "m1_tweet ''misinfo_id'' = Some (Str ''m1'') \<and>
   Str ''m1'' \<in> retweeted_misinfo user_u1_shared \<and>
   zero_draws 0 < susceptibility_to_countermeasures user_u1_shared * 0.3 \<and>
   receive_tweet user_u1_shared zero_draws m1_tweet True =
     Raises AttributeError (user_u1_retracted, zero_draws) \<and>
   retweeted_misinfo user_u1_retracted = {} \<and>
   received_countermeasures user_u1_retracted = {Str ''m1''}"
  using m1_tweet_id user_u1_retract
  by (simp add: user_u1_def user_u1_shared_def user_u1_retracted_def zero_draws_def)

text \<open>
  C10. A call of \<open>receive_tweet\<close> that is a countermeasure delivery leaves
  \<open>received_misinfo\<close> unchanged, and one that is a misinformation delivery leaves
  \<open>received_countermeasures\<close> unchanged. With either flag, and whether the call returns or
  raises, the agent after the call is the agent before it with its three sets replaced:
  \<open>retweet_probability\<close>, \<open>susceptibility_to_countermeasures\<close> and every static
  attribute are unchanged.
\<close>

theorem receive_tweet_frame:
  assumes "state_of (receive_tweet a g tweet_data cm) = (a', g')"
  shows "(if cm then received_misinfo a' = received_misinfo a
          else received_countermeasures a' = received_countermeasures a) \<and>
     retweet_probability a' = retweet_probability a \<and>
     susceptibility_to_countermeasures a' = susceptibility_to_countermeasures a \<and>
     verified a' = verified a \<and> followers_count a' = followers_count a \<and>
     user_id a' = user_id a \<and> unique_id a' = unique_id a \<and>
     a' = a\<lparr>received_misinfo := received_misinfo a',
            retweeted_misinfo := retweeted_misinfo a',
            received_countermeasures := received_countermeasures a'\<rparr>"
  using assms
  by (auto simp: receive_tweet_def consider_retweeting_def rng_random_def Let_def
      split: option.splits if_splits)

theorem receive_tweet_frame_witness:
  "state_of (receive_tweet user_u1_shared zero_draws m1_tweet True) =
     (user_u1_retracted, zero_draws) \<and>
   received_misinfo user_u1_retracted = received_misinfo user_u1_shared \<and>
   retweet_probability user_u1_retracted = retweet_probability user_u1_shared \<and>
   state_of (receive_tweet user_u1 zero_draws m1_tweet False) = (user_u1_shared, zero_draws) \<and>
   received_countermeasures user_u1_shared = received_countermeasures user_u1"
proof -
  have r: "state_of (receive_tweet user_u1_shared zero_draws m1_tweet True) =
     (user_u1_retracted, zero_draws)"
    by (simp add: user_u1_retract)
  have s: "state_of (receive_tweet user_u1 zero_draws m1_tweet False) =
     (user_u1_shared, zero_draws)"
    by (simp add: user_u1_share)
  show ?thesis
    using receive_tweet_frame [OF r] receive_tweet_frame [OF s] r s by simp
qed

lemma follower_factor_bounds:
  fixes n :: real
  assumes "n > 0"
  shows "0.5 \<le> 1 - min 0.5 (ln (1 + n) / 30)" and "1 - min 0.5 (ln (1 + n) / 30) \<le> 1"
proof -
  have "0 \<le> ln (1 + n)" using assms by simp
  then have "0 \<le> ln (1 + n) / 30" by simp
  then show "1 - min 0.5 (ln (1 + n) / 30) \<le> 1" by simp
  show "0.5 \<le> 1 - min 0.5 (ln (1 + n) / 30)" by simp
qed

lemma ln_11_lt_15: "ln (11::real) < 15"
proof -
  have "ln (11::real) \<le> 11 - 1" using ln_le_minus_one [of "11::real"] by simp
  then show ?thesis by simp
qed

lemma ln_11_lt_ln_big: "ln (11::real) < ln 2000001"
  by simp

lemma big_lt_small:
  "1 - min 0.5 (ln (1 + 2000000) / 30) < 1 - min 0.5 (ln (1 + 10) / (30::real))"
proof -
  have a: "ln (11::real) / 30 < 0.5" using ln_11_lt_15 by simp
  have b: "ln (11::real) / 30 < ln 2000001 / 30" using ln_11_lt_ln_big by simp
  have "min 0.5 (ln (11::real) / 30) < min 0.5 (ln 2000001 / 30)"
    using a b by (simp add: min_def)
  then show ?thesis by simp
qed

lemma calculate_retweet_probability_Num:
  "calculate_retweet_probability v (Num n) =
     Inr (0.1 * (if truthy v then 0.8 else 1.0) *
          (if n > 0 then 1 - min 0.5 (ln (1 + n) / 30) else 1.0))"
  by (simp add: calculate_retweet_probability_def Let_def)

lemma follower_factor_range:
  fixes n :: real
  shows "0.5 \<le> (if n > 0 then 1 - min 0.5 (ln (1 + n) / 30) else 1.0) \<and>
         (if n > 0 then 1 - min 0.5 (ln (1 + n) / 30) else 1.0) \<le> 1"
  using follower_factor_bounds [of n] by simp

lemma UserAgent_init_unverified:
  "UserAgent_init uid [''verified'' \<mapsto> Num 0, ''followers_count'' \<mapsto> Num n] g =
     Inr (a, g') \<Longrightarrow>
   retweet_probability a = 0.1 * (if n > 0 then 1 - min 0.5 (ln (1 + n) / 30) else 1.0)"
  by (auto simp: UserAgent_init_def calculate_retweet_probability_def calculate_susceptibility_def
      rng_random_def dict_get_def truthy_def Let_def)

lemma UserAgent_init_returns:
  "\<exists>a g'. UserAgent_init uid [''verified'' \<mapsto> Num 0, ''followers_count'' \<mapsto> Num n] g = Inr (a, g')"
  by (simp add: UserAgent_init_def calculate_retweet_probability_def calculate_susceptibility_def
      rng_random_def dict_get_def truthy_def Let_def)

lemma UserAgent_init_probability:
  assumes "UserAgent_init uid user_data g = Inr (a, g')"
  shows "\<exists>n. followers_count a = Num n \<and>
     calculate_retweet_probability (verified a) (Num n) = Inr (retweet_probability a)"
proof (cases "dict_get user_data ''followers_count'' (Num 0)")
  case (Str s)
  with assms show ?thesis
    by (simp add: UserAgent_init_def calculate_retweet_probability_def Let_def)
next
  case (Num n)
  with assms have "followers_count a = Num n \<and>
     calculate_retweet_probability (verified a) (Num n) = Inr (retweet_probability a)"
    by (auto simp: UserAgent_init_def Let_def split: sum.splits prod.splits)
  then show ?thesis by blast
qed

text \<open>
  C7. For every user agent that the constructor returns, \<open>followers_count\<close> is a number
  \<open>n\<close> and \<open>retweet_probability\<close> is \<open>0.1 * (0.8 if verified else 1.0) * follower_factor\<close>,
  where \<open>follower_factor\<close> is \<open>1 - min(0.5, ln(1 + n) / 30)\<close> when \<open>n > 0\<close> and \<open>1.0\<close>
  otherwise; \<open>follower_factor\<close> lies between 0.5 and 1, and \<open>retweet_probability\<close>
  between 0 and 1. An unverified user with 2,000,000 followers gets a strictly smaller
  \<open>retweet_probability\<close> than an unverified user with 10 followers.
\<close>

theorem retweet_probability_formula:
  assumes "UserAgent_init uid user_data g = Inr (a, g')"
  shows "(\<exists>n. followers_count a = Num n \<and>
      (let follower_factor = (if n > 0 then 1 - min 0.5 (ln (1 + n) / 30) else 1.0);
           p = 0.1 * (if truthy (verified a) then 0.8 else 1.0) * follower_factor
       in retweet_probability a = p \<and>
          0.5 \<le> follower_factor \<and> follower_factor \<le> 1 \<and> 0 \<le> p \<and> p \<le> 1)) \<and>
   (\<exists>b gb c gc.
      UserAgent_init ''B'' [''verified'' \<mapsto> Num 0, ''followers_count'' \<mapsto> Num 2000000] g
        = Inr (b, gb) \<and>
      UserAgent_init ''C'' [''verified'' \<mapsto> Num 0, ''followers_count'' \<mapsto> Num 10] g
        = Inr (c, gc) \<and>
      retweet_probability b < retweet_probability c)"
proof -
  obtain n where n: "followers_count a = Num n"
    and cp: "calculate_retweet_probability (verified a) (Num n) = Inr (retweet_probability a)"
    using UserAgent_init_probability [OF assms] by blast
  define follower_factor :: real
    where "follower_factor = (if n > 0 then 1 - min 0.5 (ln (1 + n) / 30) else 1.0)"
  have range: "0.5 \<le> follower_factor \<and> follower_factor \<le> 1"
    unfolding follower_factor_def by (rule follower_factor_range)
  have eq: "retweet_probability a =
       0.1 * (if truthy (verified a) then 0.8 else 1.0) * follower_factor"
    using cp calculate_retweet_probability_Num [of "verified a" n]
    unfolding follower_factor_def by simp
  have lo: "0 \<le> 0.1 * (if truthy (verified a) then 0.8 else 1.0) * follower_factor"
    using range by simp
  have "(if truthy (verified a) then 0.8 else 1.0) * follower_factor \<le> (1::real)"
    using range by (simp add: mult_le_one)
  then have hi: "0.1 * (if truthy (verified a) then 0.8 else 1.0) * follower_factor \<le> 1"
    by simp
  have "(let follower_factor = (if n > 0 then 1 - min 0.5 (ln (1 + n) / 30) else 1.0);
           p = 0.1 * (if truthy (verified a) then 0.8 else 1.0) * follower_factor
       in retweet_probability a = p \<and>
          0.5 \<le> follower_factor \<and> follower_factor \<le> 1 \<and> 0 \<le> p \<and> p \<le> 1)"
    unfolding Let_def using eq range lo hi unfolding follower_factor_def by blast
  with n have general: "\<exists>n. followers_count a = Num n \<and>
      (let follower_factor = (if n > 0 then 1 - min 0.5 (ln (1 + n) / 30) else 1.0);
           p = 0.1 * (if truthy (verified a) then 0.8 else 1.0) * follower_factor
       in retweet_probability a = p \<and>
          0.5 \<le> follower_factor \<and> follower_factor \<le> 1 \<and> 0 \<le> p \<and> p \<le> 1)"
    by blast
  obtain b gb where b: "UserAgent_init ''B''
      [''verified'' \<mapsto> Num 0, ''followers_count'' \<mapsto> Num 2000000] g = Inr (b, gb)"
    using UserAgent_init_returns by blast
  obtain c gc where c: "UserAgent_init ''C''
      [''verified'' \<mapsto> Num 0, ''followers_count'' \<mapsto> Num 10] g = Inr (c, gc)"
    using UserAgent_init_returns by blast
  have pb: "retweet_probability b = 0.1 * (1 - min 0.5 (ln (1 + 2000000) / 30))"
    using UserAgent_init_unverified [OF b] by simp
  have pc: "retweet_probability c = 0.1 * (1 - min 0.5 (ln (1 + 10) / 30))"
    using UserAgent_init_unverified [OF c] by simp
  have "(0.1::real) * (1 - min 0.5 (ln (1 + 2000000) / 30))
      < 0.1 * (1 - min 0.5 (ln (1 + 10) / 30))"
    using big_lt_small by (intro mult_strict_left_mono) simp_all
  then have "retweet_probability b < retweet_probability c"
    unfolding pb pc .
  with b c general show ?thesis by blast
qed

theorem retweet_probability_formula_witness:
  "UserAgent_init ''u1'' Map.empty (\<lambda>n. 0) = Inr (user_u1, \<lambda>n. 0) \<and>
   followers_count user_u1 = Num 0 \<and> retweet_probability user_u1 = 0.1 \<and>
   0 \<le> retweet_probability user_u1 \<and> retweet_probability user_u1 \<le> 1"
proof -
  from retweet_probability_formula [OF user_u1_init]
  obtain n where n: "followers_count user_u1 = Num n"
    and b: "0 \<le> 0.1 * (if truthy (verified user_u1) then 0.8 else 1.0) *
              (if n > 0 then 1 - min 0.5 (ln (1 + n) / 30) else 1.0)"
           "0.1 * (if truthy (verified user_u1) then 0.8 else 1.0) *
              (if n > 0 then 1 - min 0.5 (ln (1 + n) / 30) else 1.0) \<le> 1"
    and p: "retweet_probability user_u1 = 0.1 * (if truthy (verified user_u1) then 0.8 else 1.0) *
              (if n > 0 then 1 - min 0.5 (ln (1 + n) / 30) else 1.0)"
    unfolding Let_def by blast
  have "followers_count user_u1 = Num 0" by (simp add: user_u1_def)
  moreover have "retweet_probability user_u1 = 0.1" by (simp add: user_u1_def)
  moreover have "0 \<le> retweet_probability user_u1 \<and> retweet_probability user_u1 \<le> 1"
    using b p by simp
  ultimately show ?thesis using user_u1_init by simp
qed

section \<open>Properties of CountermeasureAgent\<close>

lemma collect_due_eq:
  "collect_due c items ta act =
     (ta @ map fst (due_items c items),
      fold (\<lambda>m. AList.update m c) (map fst (due_items c items)) act)"
  by (induction items arbitrary: ta act) (auto simp: due_items_def)

lemma dict_keys_delete: "dict_keys (AList.delete k d) = dict_keys d - {k}"
  by (auto simp: dict_keys_def AList.delete_eq)

lemma dict_keys_update: "dict_keys (AList.update k v d) = insert k (dict_keys d)"
  by (induction d) (auto simp: dict_keys_def)

lemma dict_keys_fold_update:
  "dict_keys (fold (\<lambda>m. AList.update m c) ms act) = dict_keys act \<union> set ms"
  by (induction ms arbitrary: act) (auto simp: dict_keys_update)

lemma due_keys_subset: "set (map fst (due_items c pend)) \<subseteq> dict_keys pend"
  by (auto simp: dict_keys_def due_items_def)

text \<open>
  What \<open>step\<close> does: without a due item it returns and changes nothing; otherwise every
  due item is written to \<open>active_countermeasures\<close>, the first of them is deleted from
  \<open>pending_countermeasures\<close>, and the call of \<open>deploy_countermeasure\<close> for it raises.
\<close>

lemma CountermeasureAgent_step_eq:
  "CountermeasureAgent_step a sc =
    (let c = (case sc of None \<Rightarrow> 0 | Some c \<Rightarrow> c)
     in case map fst (due_items c (pending_countermeasures a)) of
          [] \<Rightarrow> Returns (a, [])
        | d # ds \<Rightarrow>
            Raises AttributeError
              (a\<lparr>active_countermeasures :=
                   fold (\<lambda>m. AList.update m c) (d # ds) (active_countermeasures a),
                 pending_countermeasures := AList.delete d (pending_countermeasures a)\<rparr>,
               [d]))"
proof -
  define c where "c = (case sc of None \<Rightarrow> 0 | Some c \<Rightarrow> (c::real))"
  define due where "due = map fst (due_items c (pending_countermeasures a))"
  show ?thesis
  proof (cases due)
    case Nil
    then show ?thesis
      unfolding CountermeasureAgent_step_def Let_def collect_due_eq
      by (simp add: c_def [symmetric] due_def [symmetric])
  next
    case (Cons d ds)
    have "d \<in> dict_keys (pending_countermeasures a)"
      using due_keys_subset [of c "pending_countermeasures a"] Cons by (auto simp: due_def)
    then have del: "dict_del d (pending_countermeasures a) =
        Inr (AList.delete d (pending_countermeasures a))"
      by (simp add: dict_del_def)
    show ?thesis
      unfolding CountermeasureAgent_step_def Let_def collect_due_eq
      using Cons del by (simp add: c_def [symmetric] due_def [symmetric])
  qed
qed

lemma step_nothing_due:
  assumes "\<forall>e \<in> set (pending_countermeasures a). 0 < snd e"
  shows "CountermeasureAgent_step a None = Returns (a, [])"
proof -
  have "due_items 0 (pending_countermeasures a) = []"
    using assms by (auto simp: due_items_def filter_empty_conv)
  then show ?thesis by (simp add: CountermeasureAgent_step_eq)
qed

lemma fc_agent_init:
  "CountermeasureAgent_init ''cm_fact_check'' ''fact_check''
     (Some [''activation_threshold'' \<mapsto> Num 2, ''delay'' \<mapsto> Num 5]) = Inr fc_agent"
  by (simp add: CountermeasureAgent_init_def dict_get_def fc_agent_def Let_def)

lemma fc0_agent_init:
  "CountermeasureAgent_init ''cm_fact_check'' ''fact_check''
     (Some [''activation_threshold'' \<mapsto> Num 2, ''delay'' \<mapsto> Num 0]) = Inr fc0_agent"
  by (simp add: CountermeasureAgent_init_def dict_get_def fc_agent_def fc0_agent_def Let_def)

lemma fc_agent_activate: "activate_countermeasure fc_agent m1 4 = Returns (fc_pending, [])"
  by (simp add: activate_countermeasure_def fc_agent_def fc_pending_def)

lemma fc_pending_step: "CountermeasureAgent_step fc_pending None = Returns (fc_pending, [])"
  by (rule step_nothing_due) (simp add: fc_pending_def)

lemma fc0_agent_activate: "activate_countermeasure fc0_agent m1 0 = Returns (fc0_pending, [])"
  by (simp add: activate_countermeasure_def fc_agent_def fc0_agent_def fc0_pending_def)

lemma fc0_pending_step:
  "CountermeasureAgent_step fc0_pending None = Raises AttributeError (fc0_active, [m1])"
  by (simp add: CountermeasureAgent_step_def fc_agent_def fc0_agent_def fc0_pending_def
      fc0_active_def dict_del_def dict_keys_def AList.delete_eq)

lemma fc0_active_step: "CountermeasureAgent_step fc0_active None = Returns (fc0_active, [])"
  by (rule step_nothing_due) (simp add: fc0_active_def fc0_agent_def fc_agent_def)

lemma fc0_active_activate: "activate_countermeasure fc0_active m1 0 = Returns (fc0_both, [])"
  by (simp add: activate_countermeasure_def fc_agent_def fc0_agent_def fc0_active_def
      fc0_both_def)

lemma fc0_both_step:
  "CountermeasureAgent_step fc0_both None = Raises AttributeError (fc0_active, [m1])"
  by (simp add: CountermeasureAgent_step_def fc_agent_def fc0_agent_def fc0_both_def
      fc0_active_def dict_del_def dict_keys_def AList.delete_eq)

text \<open>
  C9 fails: constructing a controller with the unknown type \<open>bogus\<close> does not fail. The
  constructor returns an agent of that type without any of the threshold parameters.
\<close>

theorem unknown_type_counterexample:
  "CountermeasureAgent_init ''cm_x'' ''bogus'' None =
     Inr \<lparr> unique_id = ''cm_x'', pos = None, type = ''bogus'',
           activation_threshold = None, target_threshold = None, delay = None,
           coverage_ratio = None, active_countermeasures = [], pending_countermeasures = [] \<rparr>"
  by (simp add: CountermeasureAgent_init_def Let_def)

text \<open>
  C9, amended. The constructor of a controller never fails, whatever the type: it returns
  an agent of the given type with empty \<open>active_countermeasures\<close> and
  \<open>pending_countermeasures\<close>. For one of the types key_node, fact_check and early_warning
  the agent has an \<open>activation_threshold\<close>; for any other type it has none of the
  parameters \<open>activation_threshold\<close>, \<open>target_threshold\<close>, \<open>delay\<close> and
  \<open>coverage_ratio\<close>.
\<close>

theorem unknown_type_constructs:
  "\<exists>a. CountermeasureAgent_init uid ctype settings = Inr a \<and> type a = ctype \<and>
       unique_id a = uid \<and>
       active_countermeasures a = [] \<and> pending_countermeasures a = [] \<and>
       (if ctype \<in> known_types then activation_threshold a \<noteq> None
        else activation_threshold a = None \<and> target_threshold a = None \<and>
             delay a = None \<and> coverage_ratio a = None)"
  by (simp add: CountermeasureAgent_init_def known_types_def Let_def)

theorem unknown_type_constructs_witness:
  "''bogus'' \<notin> known_types \<and>
   CountermeasureAgent_init ''cm_x'' ''bogus'' None = Inr bogus_agent \<and>
   activation_threshold bogus_agent = None \<and> target_threshold bogus_agent = None \<and>
   delay bogus_agent = None \<and> coverage_ratio bogus_agent = None"
proof -
  have k: "''bogus'' \<notin> known_types" by (simp add: known_types_def)
  have i: "CountermeasureAgent_init ''cm_x'' ''bogus'' None = Inr bogus_agent"
    by (simp add: CountermeasureAgent_init_def bogus_agent_def Let_def)
  from unknown_type_constructs [of "''cm_x''" "''bogus''" None]
  obtain a where
    a: "CountermeasureAgent_init ''cm_x'' ''bogus'' None = Inr a"
      "if ''bogus'' \<in> known_types then activation_threshold a \<noteq> None
        else activation_threshold a = None \<and> target_threshold a = None \<and>
             delay a = None \<and> coverage_ratio a = None"
    by (elim exE conjE) (rule that)
  from a(1) i have "a = bogus_agent" by simp
  with a(2) k have "activation_threshold bogus_agent = None \<and> target_threshold bogus_agent = None \<and>
             delay bogus_agent = None \<and> coverage_ratio bogus_agent = None"
    by simp
  with k i show ?thesis by simp
qed

lemma dict_keys_Nil: "dict_keys [] = {}"
  by (simp add: dict_keys_def)

lemma CountermeasureAgent_init_fresh:
  assumes "CountermeasureAgent_init uid ctype settings = Inr a0"
  shows "active_countermeasures a0 = [] \<and> pending_countermeasures a0 = []"
  using assms by (auto simp: CountermeasureAgent_init_def Let_def)

lemma init_inv:
  assumes "CountermeasureAgent_init uid ctype settings = Inr a0"
  shows "cm_inv a0 []"
  using CountermeasureAgent_init_fresh [OF assms]
  by (simp add: cm_inv_def dict_keys_def)

lemma activate_inv:
  assumes inv: "cm_inv a requested"
    and guard: "m \<notin> dict_keys (active_countermeasures a)"
    and act: "state_of (activate_countermeasure a m t) = (a', requested')"
  shows "cm_inv a' (requested @ requested')"
proof (cases "type a = ''fact_check''")
  case True
  have notreq: "m \<notin> set requested" using inv guard by (auto simp: cm_inv_def)
  from act True consider
      (same) "a' = a" "requested' = []"
    | (upd) d where "a' = a\<lparr>pending_countermeasures :=
        AList.update m (t + d) (pending_countermeasures a)\<rparr>" "requested' = []"
    by (auto simp: activate_countermeasure_def split: option.splits pyval.splits)
  then show ?thesis
  proof cases
    case same
    then show ?thesis using inv by simp
  next
    case upd
    show ?thesis
      using inv notreq True unfolding cm_inv_def upd
      by (simp add: dict_keys_update distinct_update)
  qed
next
  case False
  with act have a': "a' = a\<lparr>active_countermeasures :=
        AList.update m t (active_countermeasures a)\<rparr>"
    and r: "requested' = [m]"
    by (auto simp: activate_countermeasure_def)
  have notreq: "m \<notin> set requested" using inv guard by (auto simp: cm_inv_def)
  have nopend: "pending_countermeasures a = []" using inv False by (simp add: cm_inv_def)
  show ?thesis
    using inv notreq nopend False unfolding cm_inv_def a' r
    by (auto simp: dict_keys_update dict_keys_Nil)
qed

lemma step_inv:
  assumes inv: "cm_inv a requested"
    and st: "state_of (CountermeasureAgent_step a sc) = (a', requested')"
  shows "cm_inv a' (requested @ requested')"
proof -
  define c where "c = (case sc of None \<Rightarrow> 0 | Some c \<Rightarrow> (c::real))"
  define due where "due = map fst (due_items c (pending_countermeasures a))"
  show ?thesis
  proof (cases due)
    case Nil
    with st have "a' = a" "requested' = []"
      by (simp_all add: CountermeasureAgent_step_eq c_def [symmetric] due_def [symmetric])
    then show ?thesis using inv by simp
  next
    case (Cons d ds)
    define newact where
      "newact = fold (\<lambda>m. AList.update m c) (d # ds) (active_countermeasures a)"
    from Cons st have a': "a' = a\<lparr>active_countermeasures := newact,
                 pending_countermeasures := AList.delete d (pending_countermeasures a)\<rparr>"
      and r: "requested' = [d]"
      by (simp_all add: CountermeasureAgent_step_eq c_def [symmetric] due_def [symmetric]
          newact_def)
    have dp: "d \<in> dict_keys (pending_countermeasures a)"
      using due_keys_subset [of c "pending_countermeasures a"] Cons by (auto simp: due_def)
    have fc: "type a = ''fact_check''"
      using inv dp by (auto simp: cm_inv_def dict_keys_def)
    have notreq: "d \<notin> set requested" using inv dp by (auto simp: cm_inv_def)
    have p1: "distinct (map fst (pending_countermeasures a'))"
      using inv by (simp add: a' cm_inv_def distinct_delete)
    have p2: "type a' = ''fact_check''" using fc by (simp add: a')
    have p3: "distinct (requested @ requested')"
      using inv notreq by (simp add: r cm_inv_def)
    have "dict_keys newact = dict_keys (active_countermeasures a) \<union> set (d # ds)"
      unfolding newact_def by (rule dict_keys_fold_update)
    then have ka: "dict_keys (active_countermeasures a') =
        dict_keys (active_countermeasures a) \<union> set (d # ds)"
      by (simp add: a')
    have kp: "dict_keys (pending_countermeasures a') =
        dict_keys (pending_countermeasures a) - {d}"
      by (simp add: a' dict_keys_delete)
    have p4: "set (requested @ requested') \<subseteq> dict_keys (active_countermeasures a')"
      using inv unfolding ka r by (auto simp: cm_inv_def)
    have p5: "set (requested @ requested') \<inter> dict_keys (pending_countermeasures a') = {}"
      using inv unfolding kp r by (auto simp: cm_inv_def)
    show ?thesis unfolding cm_inv_def using p1 p2 p3 p4 p5 by blast
  qed
qed

lemma cm_call_inv:
  assumes "cm_inv a requested"
    and "case c of Activate m t \<Rightarrow> m \<notin> dict_keys (active_countermeasures a) | Step sc \<Rightarrow> True"
  shows "cm_inv (fst (state_of (cm_call a c))) (requested @ snd (state_of (cm_call a c)))"
proof (cases c)
  case (Activate m t)
  with assms show ?thesis
    using activate_inv [of a requested m t
        "fst (state_of (activate_countermeasure a m t))"
        "snd (state_of (activate_countermeasure a m t))"]
    by simp
next
  case (Step sc)
  with assms show ?thesis
    using step_inv [of a requested sc
        "fst (state_of (CountermeasureAgent_step a sc))"
        "snd (state_of (CountermeasureAgent_step a sc))"]
    by simp
qed

lemma cm_run_inv:
  assumes "cm_inv a requested" and "no_reactivation a ops"
  shows "cm_inv (fst (cm_run a requested ops)) (snd (cm_run a requested ops))"
  using assms
proof (induction ops arbitrary: a requested)
  case Nil
  then show ?case by simp
next
  case (Cons c ops)
  from Cons.prems(2) have
    g: "case c of Activate m t \<Rightarrow> m \<notin> dict_keys (active_countermeasures a) | Step sc \<Rightarrow> True"
    and n: "no_reactivation (fst (state_of (cm_call a c))) ops"
    by simp_all
  from Cons.IH [OF cm_call_inv [OF Cons.prems(1) g] n] show ?case by simp
qed

lemma cm_run_append:
  "cm_run a requested (ops1 @ ops2) =
     cm_run (fst (cm_run a requested ops1)) (snd (cm_run a requested ops1)) ops2"
  by (induction ops1 arbitrary: a requested) simp_all

lemma cm_run_grows: "set requested \<subseteq> set (snd (cm_run a requested ops))"
proof (induction ops arbitrary: a requested)
  case Nil
  then show ?case by simp
next
  case (Cons c ops)
  have "set requested \<subseteq> set (requested @ snd (state_of (cm_call a c)))" by simp
  also have "\<dots> \<subseteq> set (snd (cm_run (fst (state_of (cm_call a c)))
        (requested @ snd (state_of (cm_call a c))) ops))"
    by (rule Cons.IH)
  finally show ?case by simp
qed

text \<open>
  C5 fails for arbitrary sequences of calls. A fact_check controller with delay 0 is
  activated for an item at tick 0 and stepped: the item is active and no longer pending.
  Activated for the same item again, the controller has the item both pending and active,
  and the next step requests its deployment a second time.
\<close>

theorem reactivation_counterexample:
  "CountermeasureAgent_init ''cm_fact_check'' ''fact_check''
     (Some [''activation_threshold'' \<mapsto> Num 2, ''delay'' \<mapsto> Num 0]) = Inr fc0_agent \<and>
   cm_run fc0_agent [] [Activate m1 0, Step None, Activate m1 0] = (fc0_both, [m1]) \<and>
   m1 \<in> dict_keys (pending_countermeasures fc0_both) \<inter>
        dict_keys (active_countermeasures fc0_both) \<and>
   cm_run fc0_agent [] [Activate m1 0, Step None, Activate m1 0, Step None] =
     (fc0_active, [m1, m1])"
  using fc0_agent_init
  by (simp add: fc0_agent_activate fc0_pending_step fc0_active_activate fc0_both_step)
     (simp add: fc0_both_def dict_keys_def)

text \<open>
  C5, amended. Take a controller fresh from its constructor and a sequence of
  \<open>activate_countermeasure\<close> and \<open>step\<close> calls, returning or raising, in which
  \<open>activate_countermeasure\<close> is never called for an item that is active at that moment.
  After the sequence, every item whose deployment the controller has requested is active
  and is not pending, no deployment was requested twice, and every deployment requested
  after a prefix of the sequence is among them: such an item stays active and never is
  pending again.
\<close>

theorem no_reactivation_invariant:
  assumes init: "CountermeasureAgent_init uid ctype settings = Inr a0"
    and guard: "no_reactivation a0 ops"
    and run: "cm_run a0 [] ops = (a, requested)"
  shows "distinct requested \<and>
     set requested \<subseteq> dict_keys (active_countermeasures a) \<and>
     set requested \<inter> dict_keys (pending_countermeasures a) = {} \<and>
     (\<forall>ops1 ops2. ops = ops1 @ ops2 \<longrightarrow> set (snd (cm_run a0 [] ops1)) \<subseteq> set requested)"
proof -
  from cm_run_inv [OF init_inv [OF init] guard] run have inv: "cm_inv a requested" by simp
  have pre: "set (snd (cm_run a0 [] ops1)) \<subseteq> set requested" if "ops = ops1 @ ops2" for ops1 ops2
  proof -
    have "set (snd (cm_run a0 [] ops1)) \<subseteq>
        set (snd (cm_run (fst (cm_run a0 [] ops1)) (snd (cm_run a0 [] ops1)) ops2))"
      by (rule cm_run_grows)
    with run that show ?thesis by (simp add: cm_run_append)
  qed
  from inv pre show ?thesis by (simp add: cm_inv_def)
qed

lemma fc0_run_guarded: "no_reactivation fc0_agent [Activate m1 0, Step None, Step None]"
  by (simp add: fc0_agent_activate fc0_pending_step)
     (simp add: fc0_agent_def fc_agent_def dict_keys_def)

lemma fc0_run_all:
  "cm_run fc0_agent [] [Activate m1 0, Step None, Step None] = (fc0_active, [m1])"
  by (simp add: fc0_agent_activate fc0_pending_step fc0_active_step)

lemma fc0_run_prefix:
  "cm_run fc0_agent [] [Activate m1 0, Step None] = (fc0_active, [m1])"
  by (simp add: fc0_agent_activate fc0_pending_step)

theorem no_reactivation_invariant_witness:
  "CountermeasureAgent_init ''cm_fact_check'' ''fact_check''
     (Some [''activation_threshold'' \<mapsto> Num 2, ''delay'' \<mapsto> Num 0]) = Inr fc0_agent \<and>
   no_reactivation fc0_agent [Activate m1 0, Step None, Step None] \<and>
   cm_run fc0_agent [] [Activate m1 0, Step None, Step None] = (fc0_active, [m1]) \<and>
   [Activate m1 0, Step None, Step None] = [Activate m1 0, Step None] @ [Step None] \<and>
   set [m1] \<subseteq> dict_keys (active_countermeasures fc0_active) \<and>
   set [m1] \<inter> dict_keys (pending_countermeasures fc0_active) = {} \<and>
   set (snd (cm_run fc0_agent [] [Activate m1 0, Step None])) \<subseteq> set [m1]"
proof -
  have sp: "[Activate m1 0, Step None, Step None] = [Activate m1 0, Step None] @ [Step None]"
    by simp
  note inst = no_reactivation_invariant [OF fc0_agent_init fc0_run_guarded fc0_run_all]
  from inst have a: "set [m1] \<subseteq> dict_keys (active_countermeasures fc0_active)"
    by (elim conjE)
  from inst have p: "set [m1] \<inter> dict_keys (pending_countermeasures fc0_active) = {}"
    by (elim conjE)
  from inst have q: "\<forall>ops1 ops2. [Activate m1 0, Step None, Step None] = ops1 @ ops2 \<longrightarrow>
          set (snd (cm_run fc0_agent [] ops1)) \<subseteq> set [m1]"
    by (elim conjE)
  from q sp have r: "set (snd (cm_run fc0_agent [] [Activate m1 0, Step None])) \<subseteq> set [m1]"
    by blast
  show ?thesis
    using fc0_agent_init fc0_run_guarded fc0_run_all sp a p r by (intro conjI)
qed

section \<open>Properties of MisinformationModel\<close>

lemma py_int_mono: "x \<le> y \<Longrightarrow> py_int x \<le> py_int y"
  unfolding py_int_def
  by (auto intro: floor_mono ceiling_mono) (smt (verit) ceiling_le_zero zero_le_floor)

lemma py_int_nonneg: "0 \<le> x \<Longrightarrow> py_int x = \<lfloor>x\<rfloor>"
  by (simp add: py_int_def)

lemma schedule_loop_Inr:
  assumes "schedule_loop tu rws acc = Inr sched"
  shows "sched = acc @ map (\<lambda>row. (tick_of tu row, row)) rws \<and>
         (\<forall>row \<in> set rws. \<exists>t. row ''time_since_start'' = Some (Num t))"
  using assms
proof (induction rws arbitrary: acc)
  case Nil
  then show ?case by simp
next
  case (Cons row rws)
  from Cons.prems obtain t where t: "row ''time_since_start'' = Some (Num t)" and tu: "tu \<noteq> 0"
    and r: "schedule_loop tu rws (acc @ [(py_int (t / tu), row)]) = Inr sched"
    by (auto split: option.splits pyval.splits if_splits)
  from t have "tick_of tu row = py_int (t / tu)" by (simp add: tick_of_def cell_num_def)
  with Cons.IH [OF r] t show ?case by simp
qed

lemma schedule_tweets_Inr:
  assumes "schedule_tweets tu df = Inr sched" and "''time_since_start'' \<in> set (columns df)"
  shows "sched = map (\<lambda>row. (tick_of tu row, row))
                   (sort_key (cell_num ''time_since_start'') (rows df)) \<and>
         (\<forall>row \<in> set (rows df). \<exists>t. row ''time_since_start'' = Some (Num t))"
proof -
  define k where "k = ''time_since_start''"
  define srt where "srt = sort_key (cell_num k) (filter (\<lambda>row. row k \<noteq> None) (rows df))
                @ filter (\<lambda>row. row k = None) (rows df)"
  from assms have sv: "sort_values df k = Inr srt" and sl: "schedule_loop tu srt [] = Inr sched"
    by (auto simp: schedule_tweets_def sort_values_def k_def srt_def split: if_splits sum.splits)
  from schedule_loop_Inr [OF sl] have
    s: "sched = map (\<lambda>row. (tick_of tu row, row)) srt" and
    n: "\<forall>row \<in> set srt. \<exists>t. row k = Some (Num t)" by (simp_all add: k_def)
  have "set srt = set (rows df)" by (auto simp: srt_def)
  with n have all: "\<forall>row \<in> set (rows df). \<exists>t. row k = Some (Num t)" by simp
  then have "filter (\<lambda>row. row k = None) (rows df) = []"
    by (auto simp: filter_empty_conv)
  moreover have "filter (\<lambda>row. row k \<noteq> None) (rows df) = rows df"
    using all by (auto simp: filter_id_conv)
  ultimately have "srt = sort_key (cell_num k) (rows df)" by (simp add: srt_def)
  with s all show ?thesis by (simp add: k_def)
qed

lemma tick_of_mono:
  assumes "0 < tu" and "cell_num ''time_since_start'' r1 \<le> cell_num ''time_since_start'' r2"
  shows "tick_of tu r1 \<le> tick_of tu r2"
  unfolding tick_of_def using assms by (intro py_int_mono) (simp add: divide_right_mono)

lemma sorted_ticks:
  assumes "0 < tu" and "sorted (map (cell_num ''time_since_start'') rws)"
  shows "sorted (map fst (map (\<lambda>row. (tick_of tu row, row)) rws))"
  using assms(2)
proof (induction rws)
  case Nil
  then show ?case by simp
next
  case (Cons r rws)
  then show ?case using tick_of_mono [OF assms(1)] by auto
qed

lemma schedule_tweets_sorted:
  assumes "schedule_tweets tu df = Inr sched" and "0 < tu"
  shows "sorted (map fst sched)"
proof (cases "''time_since_start'' \<in> set (columns df)")
  case False
  with assms show ?thesis by (simp add: schedule_tweets_def)
next
  case True
  from schedule_tweets_Inr [OF assms(1) True] sorted_ticks [OF assms(2) sorted_sort_key]
  show ?thesis by simp
qed

lemma timeline_3_schedule:
  "schedule_tweets time_unit timeline_3 = Inr [(0, tweet_0), (0, tweet_59), (2, tweet_130)]"
  by (simp add: schedule_tweets_def sort_values_def timeline_3_def time_unit_def cell_num_def
      py_int_def tweet_0_def tweet_59_def tweet_130_def)

lemma timeline_3_column: "''time_since_start'' \<in> set (columns timeline_3)"
  by (simp add: timeline_3_def)

text \<open>
  C8. When \<open>_schedule_tweets\<close> returns for a timeline that has the column
  \<open>time_since_start\<close>, with \<open>time_unit = 60\<close> as the constructor sets it, the schedule
  holds every row of the timeline once, each cell \<open>s\<close> is a number, and the tick of the row
  is \<open>int(s / 60)\<close>: that is \<open>floor(s / 60)\<close> when \<open>s\<close> is not negative, and \<open>0\<close> when
  \<open>0 \<le> s < 60\<close>.
\<close>

theorem schedule_tick_floor:
  assumes "schedule_tweets time_unit df = Inr sched"
    and "''time_since_start'' \<in> set (columns df)"
  shows "time_unit = 60 \<and> mset (map snd sched) = mset (rows df) \<and>
     (\<forall>e \<in> set sched. \<exists>s. snd e ''time_since_start'' = Some (Num s) \<and>
          fst e = py_int (s / 60) \<and>
          (0 \<le> s \<longrightarrow> fst e = \<lfloor>s / 60\<rfloor>) \<and> (0 \<le> s \<and> s < 60 \<longrightarrow> fst e = 0)) \<and>
     (\<forall>row \<in> set (rows df). \<forall>s. row ''time_since_start'' = Some (Num s) \<and> 0 \<le> s \<longrightarrow>
          (\<lfloor>s / 60\<rfloor>, row) \<in> set sched)"
proof -
  from schedule_tweets_Inr [OF assms] have
    sched: "sched = map (\<lambda>row. (tick_of time_unit row, row))
                   (sort_key (cell_num ''time_since_start'') (rows df))" and
    num: "\<forall>row \<in> set (rows df). \<exists>t. row ''time_since_start'' = Some (Num t)"
    by simp_all
  have tick: "tick_of time_unit row = py_int (s / 60)"
    if "row ''time_since_start'' = Some (Num s)" for row s
    using that by (simp add: tick_of_def cell_num_def time_unit_def)
  have m: "mset (map snd sched) = mset (rows df)"
    by (simp add: sched comp_def)
  have e: "\<exists>s. snd e ''time_since_start'' = Some (Num s) \<and>
          fst e = py_int (s / 60) \<and>
          (0 \<le> s \<longrightarrow> fst e = \<lfloor>s / 60\<rfloor>) \<and> (0 \<le> s \<and> s < 60 \<longrightarrow> fst e = 0)"
    if "e \<in> set sched" for e
  proof -
    from that obtain row where row: "row \<in> set (rows df)" and e: "e = (tick_of time_unit row, row)"
      by (auto simp: sched)
    from num row obtain s where s: "row ''time_since_start'' = Some (Num s)" by blast
    have f: "0 \<le> s \<Longrightarrow> py_int (s / 60) = \<lfloor>s / 60\<rfloor>" by (simp add: py_int_def)
    have z: "0 \<le> s \<Longrightarrow> s < 60 \<Longrightarrow> \<lfloor>s / 60\<rfloor> = 0" by (simp add: floor_eq_iff)
    show ?thesis using s tick [of row s] f z by (auto simp: e)
  qed
  have r: "(\<lfloor>s / 60\<rfloor>, row) \<in> set sched"
    if "row \<in> set (rows df)" and "row ''time_since_start'' = Some (Num s)" and "0 \<le> s" for row s
  proof -
    have "(tick_of time_unit row, row) \<in> set sched" using that(1) by (simp add: sched)
    moreover have "tick_of time_unit row = \<lfloor>s / 60\<rfloor>"
      using tick [of row s] that(2) that(3) by (simp add: py_int_def)
    ultimately show ?thesis by simp
  qed
  show ?thesis using m e r by (simp add: time_unit_def)
qed

theorem schedule_tick_floor_witness:
  "schedule_tweets time_unit timeline_3 = Inr [(0, tweet_0), (0, tweet_59), (2, tweet_130)] \<and>
   ''time_since_start'' \<in> set (columns timeline_3) \<and>
   tweet_59 \<in> set (rows timeline_3) \<and>
   tweet_59 ''time_since_start'' = Some (Num 59) \<and> (0::real) \<le> 59 \<and> (59::real) < 60 \<and>
   (\<lfloor>59 / 60 :: real\<rfloor>, tweet_59) \<in> set [(0, tweet_0), (0, tweet_59), (2, tweet_130)] \<and>
   tweet_130 ''time_since_start'' = Some (Num 130) \<and>
   (\<lfloor>130 / 60 :: real\<rfloor>, tweet_130) \<in> set [(0, tweet_0), (0, tweet_59), (2, tweet_130)]"
proof -
  note inst = schedule_tick_floor [OF timeline_3_schedule timeline_3_column]
  have r59: "tweet_59 \<in> set (rows timeline_3)" by (simp add: timeline_3_def)
  have r130: "tweet_130 \<in> set (rows timeline_3)" by (simp add: timeline_3_def)
  have c59: "tweet_59 ''time_since_start'' = Some (Num 59)" by (simp add: tweet_59_def)
  have c130: "tweet_130 ''time_since_start'' = Some (Num 130)" by (simp add: tweet_130_def)
  from inst r59 c59 have
    a: "(\<lfloor>59 / 60 :: real\<rfloor>, tweet_59) \<in> set [(0, tweet_0), (0, tweet_59), (2, tweet_130)]"
    by force
  from inst r130 c130 have
    b: "(\<lfloor>130 / 60 :: real\<rfloor>, tweet_130) \<in> set [(0, tweet_0), (0, tweet_59), (2, tweet_130)]"
    by force
  show ?thesis
    using timeline_3_schedule timeline_3_column r59 c59 a c130 b by simp
qed

text \<open>
  The loop of \<open>step\<close> over the schedule, were it reached: it does not raise, passes
  exactly the due records to \<open>process_tweet\<close>, once each and in the order of the
  schedule, and leaves exactly the records that are not due.
\<close>

lemma dispatch_loop_gen:
  assumes "\<forall>y \<in> set ys. \<not> is_due c y"
  shows "dispatch_loop c xs (ys @ xs) processed =
     Returns (ys @ filter (\<lambda>e. \<not> is_due c e) xs, processed @ map snd (filter (is_due c) xs))"
  using assms
proof (induction xs arbitrary: ys processed)
  case Nil
  then show ?case by simp
next
  case (Cons x xs)
  obtain step tweet where x: "x = (step, tweet)" by (cases x)
  show ?case
  proof (cases "is_due c x")
    case True
    then have "x \<notin> set ys" using Cons.prems by auto
    then have r: "remove1 x (ys @ x # xs) = ys @ xs" by (simp add: remove1_append)
    from True have le: "real_of_int step \<le> c" by (simp add: is_due_def x)
    show ?thesis
      using Cons.IH [OF Cons.prems, of "processed @ [tweet]"] True le r
      by (simp add: x)
  next
    case False
    then have p: "\<forall>y \<in> set (ys @ [x]). \<not> is_due c y" using Cons.prems by simp
    from False have nle: "\<not> real_of_int step \<le> c" by (simp add: is_due_def x)
    show ?thesis
      using Cons.IH [OF p, of processed] False nle by (simp add: x)
  qed
qed

lemma dispatch_loop_eq:
  "dispatch_loop c sched sched [] =
     Returns (filter (\<lambda>e. \<not> is_due c e) sched, map snd (filter (is_due c) sched))"
  using dispatch_loop_gen [of "[]" c sched "[]"] by simp

text \<open>
  A model that the constructor returns has no agents and neither of the two tick
  attributes, and \<open>step\<close> leaves such a model as it is: it raises \<open>AttributeError\<close>
  before the loop over the schedule, every time.
\<close>

lemma create_agents_Inr:
  assumes "create_agents py_str users_data cs g = Inr (registered, g')"
  shows "registered = []"
  using assms
  by (auto simp: create_agents_def CountermeasureAgent_init_def Let_def
      split: sum.splits if_splits)

lemma Model_init_Inr:
  assumes "Model_init py_str users_data tweets_timeline settings g = Inr (m, g')"
  shows "num_steps m = None \<and> step_count m = None \<and> agents m = [] \<and>
         schedule_tweets time_unit tweets_timeline = Inr (scheduled_tweets m)"
  using assms create_agents_Inr
  by (auto simp: Model_init_def Let_def split: sum.splits)

lemma Model_step_no_tick:
  assumes "num_steps m = None"
  shows "Model_step m = Raises AttributeError (m, [])"
  using assms by (simp add: Model_step_def)

lemma fact_check_waits:
  assumes "Model_init py_str users_data tweets_timeline settings g = Inr (m, g')"
    and "\<forall>e \<in> set (pending_countermeasures a). 0 < snd e"
  shows "CountermeasureAgent_step a (step_count m) = Returns (a, [])"
  using Model_init_Inr [OF assms(1)] step_nothing_due [OF assms(2)] by simp

lemma Model_step_constructed:
  assumes "Model_init py_str users_data tweets_timeline settings g = Inr (m, g')"
  shows "Model_step m = Raises AttributeError (m, [])"
  using Model_init_Inr [OF assms] by (simp add: Model_step_no_tick)

lemma model_3_init: "Model_init str_of_id [] timeline_3 None zero_draws = Inr (model_3, zero_draws)"
  by (simp add: Model_init_def create_agents_def enabled_def timeline_3_schedule model_3_def
      Let_def)

text \<open>
  C6, at its failing input. The model is constructed from a timeline of three records, two
  of them scheduled at tick 0. The first call of \<open>step\<close> raises \<open>AttributeError\<close> when
  it reads \<open>self.num_steps\<close>: no record is passed to \<open>process_tweet\<close>, and the schedule
  still holds all three.
\<close>

theorem step_raises_before_dispatch:
  "Model_init str_of_id [] timeline_3 None zero_draws = Inr (model_3, zero_draws) \<and>
   scheduled_tweets model_3 = [(0, tweet_0), (0, tweet_59), (2, tweet_130)] \<and>
   num_steps model_3 = None \<and>
   Model_step model_3 = Raises AttributeError (model_3, [])"
  using model_3_init by (simp add: Model_step_def model_3_def)

text \<open>
  C2, at its failing input. A fact_check controller with delay 5 is activated for the item
  \<open>m1\<close> at tick 4: \<open>pending[m1] = 9\<close>, and nothing is deployed. The model of the
  scenario has no attribute \<open>step_count\<close>, so \<open>step\<close> reads the tick \<open>0\<close>, whatever the
  tick of the engine is: the item stays pending and is never activated. With delay 0 and
  an activation at tick 0 the item is due at once: \<open>step\<close> writes it to
  \<open>active_countermeasures\<close>, deletes it from \<open>pending_countermeasures\<close>, and then raises
  \<open>AttributeError\<close> at the call of \<open>deploy_countermeasure\<close>.
\<close>

theorem fact_check_never_due:
  "CountermeasureAgent_init ''cm_fact_check'' ''fact_check''
     (Some [''activation_threshold'' \<mapsto> Num 2, ''delay'' \<mapsto> Num 5]) = Inr fc_agent \<and>
   activate_countermeasure fc_agent m1 4 = Returns (fc_pending, []) \<and>
   pending_countermeasures fc_pending = [(m1, 9)] \<and>
   Model_init str_of_id [] timeline_3 None zero_draws = Inr (model_3, zero_draws) \<and>
   step_count model_3 = None \<and>
   CountermeasureAgent_step fc_pending (step_count model_3) = Returns (fc_pending, []) \<and>
   activate_countermeasure fc0_agent m1 0 = Returns (fc0_pending, []) \<and>
   CountermeasureAgent_step fc0_pending (step_count model_3) =
     Raises AttributeError (fc0_active, [m1])"
  using fc_agent_init fc_agent_activate model_3_init fc_pending_step fc0_agent_activate
    fc0_pending_step
  by (simp add: model_3_def fc_pending_def)

end
